theory Spec2Isabelle
  imports Main "HOL-Library.Word"
begin

section \<open>Domain model (package domain)\<close>

text \<open>
  Go's \<^verbatim>\<open>int32\<close> is a 32-bit word: \<open>+\<close>, \<open>-\<close> and \<open>*\<close> wrap around and
  comparisons read the word as two's complement (\<open>sint\<close>). Go strings are byte
  sequences and \<^verbatim>\<open>len\<close> counts bytes, as \<open>length\<close> does on \<open>string\<close>.
\<close>

type_synonym int32 = "32 word"

record Movie =
  ID :: int32
  Title :: string
  Year :: string

record MovieFilter =
  Page :: int32
  Limit :: int32

text \<open>
  Errors are values. The four sentinels of the domain package are constructors of their
  own (Go compares them by identity); \<open>errors_New\<close> is a fresh \<^verbatim>\<open>errors.New(msg)\<close>;
  \<open>fmt_Errorf p e\<close> is \<^verbatim>\<open>fmt.Errorf("p: %w", e)\<close>, the error \<open>e\<close> wrapped behind the
  prefix \<open>p\<close>. The last three are what the document-store driver hands back:
  its "no documents" sentinel, a write error that is a duplicate-key error, and any
  other failure of a call (connectivity, time-out, decoding).
\<close>

datatype error =
    ErrMovieNotFound
  | ErrInvalidMovieData
  | ErrMovieAlreadyExists
  | ErrInvalidYear
  | errors_New string
  | fmt_Errorf string error
  | ErrNoDocuments
  | DuplicateKeyError string
  | DriverError string

fun Error :: "error \<Rightarrow> string" where
  "Error ErrMovieNotFound = ''movie not found''"
| "Error ErrInvalidMovieData = ''invalid movie data''"
| "Error ErrMovieAlreadyExists = ''movie already exists''"
| "Error ErrInvalidYear = ''invalid year format''"
| "Error (errors_New msg) = msg"
| "Error (fmt_Errorf p e) = p @ '': '' @ Error e"
| "Error ErrNoDocuments = ''mongo: no documents in result''"
| "Error (DuplicateKeyError msg) = msg"
| "Error (DriverError msg) = msg"

subsection \<open>The standard library's \<^verbatim>\<open>strconv.Atoi\<close> and \<^verbatim>\<open>%d\<close>\<close>

text \<open>
  \<^verbatim>\<open>strconv.Atoi\<close> (64-bit \<^verbatim>\<open>int\<close>): one optional sign \<^verbatim>\<open>+\<close> or \<^verbatim>\<open>-\<close>, then at
  least one decimal digit and nothing else; a value outside the 64-bit range is a
  range error. The callers here drop the error value, so failure is \<open>None\<close>.
\<close>

definition is_digit :: "char \<Rightarrow> bool" where
  "is_digit ch = (48 \<le> (of_char ch :: nat) \<and> (of_char ch :: nat) \<le> 57)"

definition digit_val :: "char \<Rightarrow> int" where
  "digit_val ch = int (of_char ch) - 48"

definition decimal :: "string \<Rightarrow> int" where
  "decimal s = foldl (\<lambda>n ch. n * 10 + digit_val ch) 0 s"

definition Atoi :: "string \<Rightarrow> int option" where
  "Atoi s =
     (case s of
        [] \<Rightarrow> None
      | s0 # rest \<Rightarrow>
          (let body = (if s0 = CHR ''-'' \<or> s0 = CHR ''+'' then rest else s) in
           if body = [] then None
           else if list_all is_digit body then
             (let n = decimal body;
                  v = (if s0 = CHR ''-'' then - n else n) in
              if v < - (2 ^ 63) \<or> 2 ^ 63 - 1 < v then None else Some v)
           else None))"

text \<open>The verb \<^verbatim>\<open>%d\<close> of \<^verbatim>\<open>fmt\<close>: the decimal rendering of an integer.\<close>

fun nat_digits :: "nat \<Rightarrow> string" where
  "nat_digits n =
     (if n < 10 then [char_of (48 + n)]
      else nat_digits (n div 10) @ [char_of (48 + n mod 10)])"

definition fmt_d :: "int \<Rightarrow> string" where
  "fmt_d i = (if i < 0 then CHR ''-'' # nat_digits (nat (- i)) else nat_digits (nat i))"

subsection \<open>The entity: \<^verbatim>\<open>NewMovie\<close>, \<^verbatim>\<open>Validate\<close>, \<^verbatim>\<open>Update\<close>, \<^verbatim>\<open>IsEqual\<close>, \<^verbatim>\<open>Copy\<close>\<close>

text \<open>
  \<^verbatim>\<open>time.Now().Year()\<close> is the parameter \<open>currentYear\<close>. \<^verbatim>\<open>NewMovie\<close> parses the
  year a second time and ignores that call's error, which leaves \<^verbatim>\<open>yearInt\<close> at 0.
\<close>

definition NewMovie :: "int \<Rightarrow> int32 \<Rightarrow> string \<Rightarrow> string \<Rightarrow> error + Movie" where
  "NewMovie currentYear mid title year =
     (if title = [] then Inl (errors_New ''title cannot be empty'')
      else if year = [] then Inl (errors_New ''year cannot be empty'')
      else if length year \<noteq> 4 then Inl ErrInvalidYear
      else if Atoi year = None then Inl ErrInvalidYear
      else
        (let yearInt = (case Atoi year of Some n \<Rightarrow> n | None \<Rightarrow> 0) in
         if yearInt < 1800 \<or> yearInt > currentYear + 10
         then Inl (errors_New ''year must be between 1800 and current year + 10'')
         else Inr \<lparr>ID = mid, Title = title, Year = year\<rparr>))"

definition Validate :: "Movie \<Rightarrow> error option" where
  "Validate m =
     (if Title m = [] then Some (errors_New ''title cannot be empty'')
      else if Year m = [] then Some (errors_New ''year cannot be empty'')
      else if length (Year m) \<noteq> 4 then Some ErrInvalidYear
      else if Atoi (Year m) = None then Some ErrInvalidYear
      else None)"


definition IsEqual :: "Movie \<Rightarrow> Movie \<Rightarrow> bool" where
  "IsEqual m other = (ID m = ID other \<and> Title m = Title other \<and> Year m = Year other)"

definition Copy :: "Movie \<Rightarrow> Movie" where
  "Copy m = \<lparr>ID = ID m, Title = Title m, Year = Year m\<rparr>"

section \<open>The repository port (package ports)\<close>

text \<open>
  The interface \<^verbatim>\<open>MovieRepository\<close>: seven operations over a state \<open>'s\<close> that an
  implementation chooses. Each takes the state and returns its result with the state
  it leaves behind.
\<close>

record 's MovieRepository =
  FindAll :: "MovieFilter \<Rightarrow> 's \<Rightarrow> (error + Movie list) \<times> 's"
  FindByID :: "int32 \<Rightarrow> 's \<Rightarrow> (error + Movie) \<times> 's"
  Create :: "Movie \<Rightarrow> 's \<Rightarrow> (error + Movie) \<times> 's"
  Delete :: "int32 \<Rightarrow> 's \<Rightarrow> error option \<times> 's"
  Count :: "'s \<Rightarrow> (error + int32) \<times> 's"
  ExistsByID :: "int32 \<Rightarrow> 's \<Rightarrow> (error + bool) \<times> 's"
  GetNextID :: "'s \<Rightarrow> (error + int32) \<times> 's"

section \<open>The document store\<close>

text \<open>
  The collection is the list of its documents in storage order. Every call of the
  driver may fail for reasons outside the program (connection lost, deadline passed):
  \<open>faults\<close> is the schedule of the calls to come, \<open>None\<close> for a call that goes
  through and \<open>Some msg\<close> for one that fails with \<open>msg\<close>; past the end of the
  schedule every call goes through. The collection has no schema validator, like the
  one of the integration test; the validator that the initialisation script installs
  asks for a year of four digits, which every year stored below is.
\<close>

record store =
  docs :: "Movie list"
  faults :: "string option list"

definition driver_call :: "store \<Rightarrow> string option \<times> store" where
  "driver_call s =
     (case faults s of
        [] \<Rightarrow> (None, s)
      | f # fs \<Rightarrow> (f, s\<lparr>faults := fs\<rparr>))"

text \<open>The documents sorted by \<^verbatim>\<open>_id\<close>, a signed 32-bit number, in either direction.\<close>

definition by_id_asc :: "Movie list \<Rightarrow> Movie list" where
  "by_id_asc ms = sort_key (\<lambda>m. sint (ID m)) ms"

definition by_id_desc :: "Movie list \<Rightarrow> Movie list" where
  "by_id_desc ms = sort_key (\<lambda>m. - sint (ID m)) ms"

text \<open>
  \<^verbatim>\<open>Find\<close> with the empty filter, a skip, a limit and the sort by \<^verbatim>\<open>_id\<close> ascending.
  The server refuses a negative skip; a limit of 0 is no limit and a negative limit
  caps at its absolute value. The result is the cursor, here the documents it will
  yield.
\<close>

definition apply_limit :: "int \<Rightarrow> Movie list \<Rightarrow> Movie list" where
  "apply_limit lim ms = (if lim = 0 then ms else take (nat \<bar>lim\<bar>) ms)"

definition Collection_Find :: "int \<Rightarrow> int \<Rightarrow> store \<Rightarrow> (error + Movie list) \<times> store" where
  "Collection_Find skip lim s =
     (case driver_call s of
        (Some msg, s1) \<Rightarrow> (Inl (DriverError msg), s1)
      | (None, s1) \<Rightarrow>
          if skip < 0 then (Inl (DriverError ''skip must be non-negative''), s1)
          else (Inr (apply_limit lim (drop (nat skip) (by_id_asc (docs s1)))), s1))"

definition Cursor_All :: "Movie list \<Rightarrow> store \<Rightarrow> (error + Movie list) \<times> store" where
  "Cursor_All cursor s =
     (case driver_call s of
        (Some msg, s1) \<Rightarrow> (Inl (DriverError msg), s1)
      | (None, s1) \<Rightarrow> (Inr cursor, s1))"

text \<open>\<^verbatim>\<open>FindOne\<close> and \<^verbatim>\<open>Decode\<close>, with the filter \<^verbatim>\<open>{_id: id}\<close>.\<close>

definition Collection_FindOne_id :: "int32 \<Rightarrow> store \<Rightarrow> (error + Movie) \<times> store" where
  "Collection_FindOne_id mid s =
     (case driver_call s of
        (Some msg, s1) \<Rightarrow> (Inl (DriverError msg), s1)
      | (None, s1) \<Rightarrow>
          (case find (\<lambda>m. ID m = mid) (docs s1) of
             None \<Rightarrow> (Inl ErrNoDocuments, s1)
           | Some m \<Rightarrow> (Inr m, s1)))"

text \<open>\<^verbatim>\<open>FindOne\<close> and \<^verbatim>\<open>Decode\<close>, with the empty filter and the sort by \<^verbatim>\<open>_id\<close> descending.\<close>

definition Collection_FindOne_desc :: "store \<Rightarrow> (error + Movie) \<times> store" where
  "Collection_FindOne_desc s =
     (case driver_call s of
        (Some msg, s1) \<Rightarrow> (Inl (DriverError msg), s1)
      | (None, s1) \<Rightarrow>
          (case by_id_desc (docs s1) of
             [] \<Rightarrow> (Inl ErrNoDocuments, s1)
           | m # _ \<Rightarrow> (Inr m, s1)))"

text \<open>\<^verbatim>\<open>InsertOne\<close>: the unique index on \<^verbatim>\<open>_id\<close> refuses a second document with the same id.\<close>

definition Collection_InsertOne :: "Movie \<Rightarrow> store \<Rightarrow> error option \<times> store" where
  "Collection_InsertOne movie s =
     (case driver_call s of
        (Some msg, s1) \<Rightarrow> (Some (DriverError msg), s1)
      | (None, s1) \<Rightarrow>
          if \<exists>m \<in> set (docs s1). ID m = ID movie
          then (Some (DuplicateKeyError ''E11000 duplicate key error''), s1)
          else (None, s1\<lparr>docs := docs s1 @ [movie]\<rparr>))"

definition IsDuplicateKeyError :: "error \<Rightarrow> bool" where
  "IsDuplicateKeyError err = (case err of DuplicateKeyError _ \<Rightarrow> True | _ \<Rightarrow> False)"

text \<open>\<^verbatim>\<open>DeleteOne\<close> with the filter \<^verbatim>\<open>{_id: id}\<close>: the result is \<^verbatim>\<open>DeletedCount\<close>.\<close>

fun delete_first :: "int32 \<Rightarrow> Movie list \<Rightarrow> Movie list" where
  "delete_first mid [] = []"
| "delete_first mid (m # ms) = (if ID m = mid then ms else m # delete_first mid ms)"

definition Collection_DeleteOne :: "int32 \<Rightarrow> store \<Rightarrow> (error + int) \<times> store" where
  "Collection_DeleteOne mid s =
     (case driver_call s of
        (Some msg, s1) \<Rightarrow> (Inl (DriverError msg), s1)
      | (None, s1) \<Rightarrow>
          if \<exists>m \<in> set (docs s1). ID m = mid
          then (Inr 1, s1\<lparr>docs := delete_first mid (docs s1)\<rparr>)
          else (Inr 0, s1))"

text \<open>\<^verbatim>\<open>CountDocuments\<close>: the 64-bit count of the documents that match.\<close>

definition Collection_CountDocuments :: "(Movie \<Rightarrow> bool) \<Rightarrow> store \<Rightarrow> (error + int) \<times> store" where
  "Collection_CountDocuments flt s =
     (case driver_call s of
        (Some msg, s1) \<Rightarrow> (Inl (DriverError msg), s1)
      | (None, s1) \<Rightarrow> (Inr (int (length (filter flt (docs s1)))), s1))"

section \<open>The document-store repository (package database)\<close>

definition MongoMovieRepository_FindAll ::
  "MovieFilter \<Rightarrow> store \<Rightarrow> (error + Movie list) \<times> store" where
  "MongoMovieRepository_FindAll flt s =
     (let skip = (Page flt - 1) * Limit flt in
      case Collection_Find (sint skip) (sint (Limit flt)) s of
        (Inl err, s1) \<Rightarrow> (Inl (fmt_Errorf ''failed to find movies'' err), s1)
      | (Inr cursor, s1) \<Rightarrow>
          (case Cursor_All cursor s1 of
             (Inl err, s2) \<Rightarrow> (Inl (fmt_Errorf ''failed to decode movies'' err), s2)
           | (Inr movies, s2) \<Rightarrow> (Inr movies, s2)))"

definition MongoMovieRepository_FindByID ::
  "int32 \<Rightarrow> store \<Rightarrow> (error + Movie) \<times> store" where
  "MongoMovieRepository_FindByID mid s =
     (case Collection_FindOne_id mid s of
        (Inl err, s1) \<Rightarrow>
          if err = ErrNoDocuments then (Inl ErrMovieNotFound, s1)
          else (Inl (fmt_Errorf ''failed to find movie by ID'' err), s1)
      | (Inr movie, s1) \<Rightarrow> (Inr movie, s1))"

definition MongoMovieRepository_Create ::
  "Movie \<Rightarrow> store \<Rightarrow> (error + Movie) \<times> store" where
  "MongoMovieRepository_Create movie s =
     (case Validate movie of
        Some err \<Rightarrow> (Inl (fmt_Errorf ''invalid movie data'' err), s)
      | None \<Rightarrow>
          (case Collection_InsertOne movie s of
             (Some err, s1) \<Rightarrow>
               if IsDuplicateKeyError err then (Inl ErrMovieAlreadyExists, s1)
               else (Inl (fmt_Errorf ''failed to create movie'' err), s1)
           | (None, s1) \<Rightarrow> (Inr movie, s1)))"

definition MongoMovieRepository_Delete ::
  "int32 \<Rightarrow> store \<Rightarrow> error option \<times> store" where
  "MongoMovieRepository_Delete mid s =
     (case Collection_DeleteOne mid s of
        (Inl err, s1) \<Rightarrow> (Some (fmt_Errorf ''failed to delete movie'' err), s1)
      | (Inr deletedCount, s1) \<Rightarrow>
          if deletedCount = 0 then (Some ErrMovieNotFound, s1) else (None, s1))"

definition MongoMovieRepository_Count :: "store \<Rightarrow> (error + int32) \<times> store" where
  "MongoMovieRepository_Count s =
     (case Collection_CountDocuments (\<lambda>m. True) s of
        (Inl err, s1) \<Rightarrow> (Inl (fmt_Errorf ''failed to count movies'' err), s1)
      | (Inr count, s1) \<Rightarrow> (Inr (word_of_int count), s1))"

definition MongoMovieRepository_ExistsByID ::
  "int32 \<Rightarrow> store \<Rightarrow> (error + bool) \<times> store" where
  "MongoMovieRepository_ExistsByID mid s =
     (case Collection_CountDocuments (\<lambda>m. ID m = mid) s of
        (Inl err, s1) \<Rightarrow> (Inl (fmt_Errorf ''failed to check movie existence'' err), s1)
      | (Inr count, s1) \<Rightarrow> (Inr (count > 0), s1))"

definition MongoMovieRepository_GetNextID :: "store \<Rightarrow> (error + int32) \<times> store" where
  "MongoMovieRepository_GetNextID s =
     (case Collection_FindOne_desc s of
        (Inl err, s1) \<Rightarrow>
          if err = ErrNoDocuments then (Inr 1, s1)
          else (Inl (fmt_Errorf ''failed to get max movie ID'' err), s1)
      | (Inr movie, s1) \<Rightarrow> (Inr (ID movie + 1), s1))"

definition NewMongoMovieRepository :: "store MovieRepository" where
  "NewMongoMovieRepository =
     \<lparr>FindAll = MongoMovieRepository_FindAll,
      FindByID = MongoMovieRepository_FindByID,
      Create = MongoMovieRepository_Create,
      Delete = MongoMovieRepository_Delete,
      Count = MongoMovieRepository_Count,
      ExistsByID = MongoMovieRepository_ExistsByID,
      GetNextID = MongoMovieRepository_GetNextID\<rparr>"

section \<open>The movie service (package services)\<close>

text \<open>
  The service holds a repository behind the interface; logging has no effect on any
  result and is left out. \<^verbatim>\<open>GetMovies\<close> returns \<^verbatim>\<open>(nil, 0, err)\<close> on failure and
  \<^verbatim>\<open>(movies, total, nil)\<close> otherwise.
\<close>

text \<open>The first two statements of \<^verbatim>\<open>GetMovies\<close>, which coerce the page and the limit.\<close>

definition normalize :: "MovieFilter \<Rightarrow> MovieFilter" where
  "normalize flt =
     (let f1 = (if sint (Page flt) < 1 then flt\<lparr>Page := 1\<rparr> else flt) in
      if sint (Limit f1) < 1 \<or> sint (Limit f1) > 100 then f1\<lparr>Limit := 10\<rparr> else f1)"

definition GetMovies ::
  "'s MovieRepository \<Rightarrow> MovieFilter \<Rightarrow> 's \<Rightarrow> (error + Movie list \<times> int32) \<times> 's" where
  "GetMovies repo flt s =
     (case FindAll repo (normalize flt) s of
        (Inl err, s1) \<Rightarrow> (Inl (fmt_Errorf ''failed to get movies'' err), s1)
      | (Inr movies, s1) \<Rightarrow>
          (case Count repo s1 of
             (Inl err, s2) \<Rightarrow> (Inr (movies, 0), s2)
           | (Inr total', s2) \<Rightarrow> (Inr (movies, total'), s2)))"

definition GetMovie :: "'s MovieRepository \<Rightarrow> int32 \<Rightarrow> 's \<Rightarrow> (error + Movie) \<times> 's" where
  "GetMovie repo mid s =
     (if sint mid \<le> 0 then (Inl ErrInvalidMovieData, s)
      else
        (case FindByID repo mid s of
           (Inl err, s1) \<Rightarrow>
             (Inl (fmt_Errorf (''failed to get movie with id '' @ fmt_d (sint mid)) err), s1)
         | (Inr movie, s1) \<Rightarrow> (Inr movie, s1)))"

definition CreateMovie ::
  "'s MovieRepository \<Rightarrow> int \<Rightarrow> string \<Rightarrow> string \<Rightarrow> 's \<Rightarrow> (error + Movie) \<times> 's" where
  "CreateMovie repo currentYear title year s =
     (case GetNextID repo s of
        (Inl err, s1) \<Rightarrow> (Inl (fmt_Errorf ''failed to generate movie ID'' err), s1)
      | (Inr nextID, s1) \<Rightarrow>
          (case NewMovie currentYear nextID title year of
             Inl err \<Rightarrow> (Inl (fmt_Errorf ''invalid movie data'' err), s1)
           | Inr movie \<Rightarrow>
               (case ExistsByID repo (ID movie) s1 of
                  (Inl err, s2) \<Rightarrow>
                    (Inl (fmt_Errorf ''failed to check movie existence'' err), s2)
                | (Inr exists, s2) \<Rightarrow>
                    if exists then (Inl ErrMovieAlreadyExists, s2)
                    else
                      (case Create repo movie s2 of
                         (Inl err, s3) \<Rightarrow>
                           (Inl (fmt_Errorf ''failed to create movie'' err), s3)
                       | (Inr createdMovie, s3) \<Rightarrow> (Inr createdMovie, s3)))))"

definition DeleteMovie :: "'s MovieRepository \<Rightarrow> int32 \<Rightarrow> 's \<Rightarrow> error option \<times> 's" where
  "DeleteMovie repo mid s =
     (if sint mid \<le> 0 then (Some ErrInvalidMovieData, s)
      else
        (case ExistsByID repo mid s of
           (Inl err, s1) \<Rightarrow>
             (Some (fmt_Errorf ''failed to check movie existence'' err), s1)
         | (Inr exists, s1) \<Rightarrow>
             if \<not> exists then (Some ErrMovieNotFound, s1)
             else
               (case Delete repo mid s1 of
                  (Some err, s2) \<Rightarrow>
                    (Some (fmt_Errorf (''failed to delete movie with id '' @ fmt_d (sint mid)) err),
                     s2)
                | (None, s2) \<Rightarrow> (None, s2))))"

section \<open>Notions used to state the properties\<close>

text \<open>
  The constraints of creation, as the specification words them: a non-empty title, a
  year of exactly four decimal digits, and its value between 1800 and the current
  year plus ten.
\<close>

definition creation_constraints :: "int \<Rightarrow> string \<Rightarrow> string \<Rightarrow> bool" where
  "creation_constraints currentYear title year =
     (title \<noteq> [] \<and> length year = 4 \<and> list_all is_digit year \<and>
      1800 \<le> decimal year \<and> decimal year \<le> currentYear + 10)"

text \<open>
  \<open>calls_ok n s\<close>: the next \<open>n\<close> calls of the driver go through.
  \<open>after_calls n s\<close>: the store once \<open>n\<close> calls have been made that changed no
  document.
\<close>

definition calls_ok :: "nat \<Rightarrow> store \<Rightarrow> bool" where
  "calls_ok n s = list_all (\<lambda>f. f = None) (take n (faults s))"

definition after_calls :: "nat \<Rightarrow> store \<Rightarrow> store" where
  "after_calls n s = s\<lparr>faults := drop n (faults s)\<rparr>"

text \<open>The highest id of a non-empty collection, as a number.\<close>

definition max_id :: "Movie list \<Rightarrow> int" where
  "max_id ms = Max ((\<lambda>m. sint (ID m)) ` set ms)"

text \<open>\<open>n\<close> calls of \<^verbatim>\<open>DeleteMovie\<close> in a row with the same id: the results, in order, and the final state.\<close>

fun DeleteMovie_times ::
  "'s MovieRepository \<Rightarrow> int32 \<Rightarrow> nat \<Rightarrow> 's \<Rightarrow> error option list \<times> 's" where
  "DeleteMovie_times repo mid 0 s = ([], s)"
| "DeleteMovie_times repo mid (Suc n) s =
     (case DeleteMovie repo mid s of
        (r, s1) \<Rightarrow>
          (case DeleteMovie_times repo mid n s1 of
             (rs, s2) \<Rightarrow> (r # rs, s2)))"

text \<open>
  A repository whose every operation fails, and whose state is the number of calls it
  has received.
\<close>

definition failing_repository :: "nat MovieRepository" where
  "failing_repository =
     \<lparr>FindAll = (\<lambda>flt n. (Inl (errors_New ''database error''), Suc n)),
      FindByID = (\<lambda>mid n. (Inl (errors_New ''database error''), Suc n)),
      Create = (\<lambda>movie n. (Inl (errors_New ''database error''), Suc n)),
      Delete = (\<lambda>mid n. (Some (errors_New ''database error''), Suc n)),
      Count = (\<lambda>n. (Inl (errors_New ''database error''), Suc n)),
      ExistsByID = (\<lambda>mid n. (Inl (errors_New ''database error''), Suc n)),
      GetNextID = (\<lambda>n. (Inl (errors_New ''database error''), Suc n))\<rparr>"

section \<open>Parsing years\<close>

declare nat_digits.simps [simp del]

lemma decimal_snoc: "decimal (s @ [ch]) = decimal s * 10 + digit_val ch"
  by (simp add: decimal_def)

lemma digit_val_range: "is_digit ch \<Longrightarrow> 0 \<le> digit_val ch \<and> digit_val ch \<le> 9"
  by (auto simp: is_digit_def digit_val_def)

lemma decimal_range:
  "list_all is_digit s \<Longrightarrow> 0 \<le> decimal s \<and> decimal s < 10 ^ length s"
proof (induction s rule: rev_induct)
  case Nil
  show ?case by (simp add: decimal_def)
next
  case (snoc ch s)
  then have ih: "0 \<le> decimal s" "decimal s < 10 ^ length s" and d: "is_digit ch"
    by simp_all
  from d have dv: "0 \<le> digit_val ch" "digit_val ch \<le> 9"
    using digit_val_range by blast+
  from ih(2) have "decimal s + 1 \<le> 10 ^ length s" by simp
  then have "(decimal s + 1) * 10 \<le> 10 ^ length s * 10" by (rule mult_right_mono) simp
  with ih(1) dv show ?case by (simp add: decimal_snoc algebra_simps)
qed

lemma is_digit_not_sign: "is_digit ch \<Longrightarrow> ch \<noteq> CHR ''-'' \<and> ch \<noteq> CHR ''+''"
  by (auto simp: is_digit_def)

text \<open>On a short string of digits \<^verbatim>\<open>Atoi\<close> succeeds with the decimal value.\<close>

lemma Atoi_digits:
  assumes "list_all is_digit s" and "s \<noteq> []" and "length s < 19"
  shows "Atoi s = Some (decimal s)"
proof -
  from assms(2) obtain s0 rest where s: "s = s0 # rest" by (cases s) auto
  with assms(1) have "is_digit s0" by simp
  then have ns: "s0 \<noteq> CHR ''-''" "s0 \<noteq> CHR ''+''" using is_digit_not_sign by blast+
  have r: "0 \<le> decimal s" "decimal s < 10 ^ length s"
    using decimal_range [OF assms(1)] by simp_all
  have "(10::int) ^ length s \<le> 10 ^ 18"
    using assms(3) by (intro power_increasing) simp_all
  with r(2) have "decimal s < 2 ^ 63" by simp
  with r(1) ns assms(1) show ?thesis
    unfolding s Atoi_def by (simp add: Let_def)
qed

text \<open>
  A string of four bytes that \<^verbatim>\<open>Atoi\<close> reads as 1000 or more has no sign, so it is
  four digits: a sign leaves room for three digits only.
\<close>

lemma Atoi_four_range:
  assumes "length y = 4" and "Atoi y = Some n" and "1000 \<le> n"
  shows "list_all is_digit y \<and> n = decimal y"
proof -
  from assms(1) obtain s0 rest where y: "y = s0 # rest" and lr: "length rest = 3"
    by (cases y) auto
  show ?thesis
  proof (cases "s0 = CHR ''-'' \<or> s0 = CHR ''+''")
    case True
    with assms(2) have dr: "list_all is_digit rest"
      and n: "n = decimal rest \<or> n = - decimal rest"
      unfolding y Atoi_def by (auto simp: Let_def split: if_splits)
    from decimal_range [OF dr] lr have "0 \<le> decimal rest" "decimal rest < 1000"
      by simp_all
    with n assms(3) show ?thesis by auto
  next
    case False
    with assms(2) show ?thesis
      unfolding y Atoi_def by (auto simp: Let_def split: if_splits)
  qed
qed

text \<open>What \<^verbatim>\<open>NewMovie\<close> accepts is exactly what satisfies the constraints of creation.\<close>

lemma NewMovie_Inr_iff:
  "NewMovie currentYear mid title year = Inr m \<longleftrightarrow>
     creation_constraints currentYear title year \<and>
     m = \<lparr>ID = mid, Title = title, Year = year\<rparr>"
proof
  assume a: "NewMovie currentYear mid title year = Inr m"
  then have t: "title \<noteq> []" and l: "length year = 4"
    by (auto simp: NewMovie_def split: if_splits)
  from a t l obtain n where n: "Atoi year = Some n"
    and r: "1800 \<le> n" "n \<le> currentYear + 10"
    and m: "m = \<lparr>ID = mid, Title = title, Year = year\<rparr>"
    by (auto simp: NewMovie_def Let_def split: if_splits)
  from Atoi_four_range [OF l n] r have "list_all is_digit year" "n = decimal year"
    by simp_all
  with t l r m show "creation_constraints currentYear title year \<and>
     m = \<lparr>ID = mid, Title = title, Year = year\<rparr>"
    by (simp add: creation_constraints_def)
next
  assume b: "creation_constraints currentYear title year \<and>
     m = \<lparr>ID = mid, Title = title, Year = year\<rparr>"
  then have c: "title \<noteq> []" "length year = 4" "list_all is_digit year"
    "1800 \<le> decimal year" "decimal year \<le> currentYear + 10"
    by (simp_all add: creation_constraints_def)
  then have "year \<noteq> []" by auto
  with c have "Atoi year = Some (decimal year)" by (intro Atoi_digits) simp_all
  with b c show "NewMovie currentYear mid title year = Inr m"
    by (auto simp: NewMovie_def Let_def)
qed

lemma NewMovie_Inl_iff:
  "(\<exists>e. NewMovie currentYear mid title year = Inl e) \<longleftrightarrow>
     \<not> creation_constraints currentYear title year"
proof (cases "NewMovie currentYear mid title year")
  case (Inl e)
  then show ?thesis using NewMovie_Inr_iff [of currentYear mid title year] by auto
next
  case (Inr m)
  then show ?thesis using NewMovie_Inr_iff [of currentYear mid title year m] by auto
qed

text \<open>A movie that \<^verbatim>\<open>NewMovie\<close> built passes \<^verbatim>\<open>Validate\<close>.\<close>

lemma Validate_NewMovie:
  assumes "NewMovie currentYear mid title year = Inr m"
  shows "Validate m = None"
proof -
  from assms have c: "creation_constraints currentYear title year"
    and m: "m = \<lparr>ID = mid, Title = title, Year = year\<rparr>"
    using NewMovie_Inr_iff by blast+
  from c have "year \<noteq> []" "Atoi year = Some (decimal year)"
    by (auto simp: creation_constraints_def intro: Atoi_digits)
  with c m show ?thesis by (simp add: Validate_def creation_constraints_def)
qed

text \<open>
  \<^verbatim>\<open>NewMovie\<close> accepts the fields of a movie exactly when \<^verbatim>\<open>Validate\<close> passes the
  movie and the year that \<^verbatim>\<open>Atoi\<close> reads is in the range.
\<close>

lemma NewMovie_iff_Validate_and_range:
  "(\<exists>m'. NewMovie currentYear (ID m) (Title m) (Year m) = Inr m') \<longleftrightarrow>
     Validate m = None \<and>
     (\<exists>n. Atoi (Year m) = Some n \<and> 1800 \<le> n \<and> n \<le> currentYear + 10)"
  by (auto simp: NewMovie_def Validate_def Let_def)

lemma Atoi_1700: "Atoi ''1700'' = Some 1700"
  by (simp add: Atoi_def is_digit_def decimal_def digit_val_def)

section \<open>The validator and the constructor\<close>

text \<open>
  C2. The validator and the constructor are meant to check the same constraints, so
  that one succeeds exactly when the other does. They do not: \<^verbatim>\<open>Validate\<close> has no
  check of the range of the year. The movie with title \<^verbatim>\<open>X\<close> and year \<^verbatim>\<open>1700\<close>
  passes \<^verbatim>\<open>Validate\<close>, and \<^verbatim>\<open>NewMovie\<close> refuses the same fields in every year.
\<close>

theorem Validate_passes_NewMovie_refuses:
  "Validate \<lparr>ID = 1, Title = ''X'', Year = ''1700''\<rparr> = None \<and>
   NewMovie currentYear 1 ''X'' ''1700'' =
     Inl (errors_New ''year must be between 1800 and current year + 10'')"
  by (simp add: Validate_def NewMovie_def Atoi_1700)

section \<open>What the repository stores\<close>

text \<open>
  \<^verbatim>\<open>Create\<close> runs \<^verbatim>\<open>Validate\<close> first: a movie that fails it is refused with no call
  of the driver, and a movie that \<^verbatim>\<open>Create\<close> returns has passed it.
\<close>

lemma Create_refuses_before_insert:
  "Validate movie = Some err \<Longrightarrow>
   MongoMovieRepository_Create movie s = (Inl (fmt_Errorf ''invalid movie data'' err), s)"
  by (simp add: MongoMovieRepository_Create_def)

lemma Create_Inr_Validate:
  "MongoMovieRepository_Create movie s = (Inr m', s') \<Longrightarrow> Validate movie = None \<and> m' = movie"
  by (auto simp: MongoMovieRepository_Create_def split: option.splits prod.splits if_splits)

text \<open>
  C1. Every movie that \<^verbatim>\<open>Create\<close> accepts should satisfy the whole invariant of the
  year: four digits with a value between 1800 and the current year plus ten. The
  validation that \<^verbatim>\<open>Create\<close> runs before the insert has no check of the range: on
  the empty collection \<^verbatim>\<open>Create\<close> accepts and stores a movie of year \<^verbatim>\<open>1700\<close>, which
  the constraints of creation exclude in every year.
\<close>

theorem Create_stores_year_out_of_range:
  "MongoMovieRepository_Create \<lparr>ID = 1, Title = ''X'', Year = ''1700''\<rparr>
     \<lparr>docs = [], faults = []\<rparr> =
     (Inr \<lparr>ID = 1, Title = ''X'', Year = ''1700''\<rparr>,
      \<lparr>docs = [\<lparr>ID = 1, Title = ''X'', Year = ''1700''\<rparr>], faults = []\<rparr>) \<and>
   \<not> creation_constraints currentYear ''X'' ''1700''"
  by (simp add: MongoMovieRepository_Create_def Validate_def Atoi_1700
      Collection_InsertOne_def driver_call_def creation_constraints_def
      decimal_def digit_val_def)

section \<open>The update of the entity\<close>



section \<open>The driver's calls\<close>

lemma driver_call_ok:
  "calls_ok (Suc n) s \<Longrightarrow> driver_call s = (None, after_calls 1 s)"
  by (cases "faults s") (auto simp: calls_ok_def driver_call_def after_calls_def)

lemma driver_call_fault:
  "faults s = Some msg # fs \<Longrightarrow> driver_call s = (Some msg, after_calls 1 s)"
  by (simp add: driver_call_def after_calls_def)

lemma not_calls_ok_fault: "\<not> calls_ok 1 s \<Longrightarrow> \<exists>msg fs. faults s = Some msg # fs"
  by (cases "faults s") (auto simp: calls_ok_def)

lemma snd_driver_call: "snd (driver_call s) = after_calls 1 s"
  by (cases "faults s") (auto simp: driver_call_def after_calls_def)

lemma calls_ok_after: "calls_ok (Suc n) s \<Longrightarrow> calls_ok n (after_calls 1 s)"
  by (cases "faults s") (auto simp: calls_ok_def after_calls_def)

lemma calls_ok_Suc: "calls_ok (Suc n) s \<Longrightarrow> calls_ok 1 s"
  by (cases "faults s") (auto simp: calls_ok_def)

lemma after_calls_add: "after_calls a (after_calls b s) = after_calls (a + b) s"
  by (simp add: after_calls_def)

lemma docs_after_calls [simp]: "docs (after_calls n s) = docs s"
  by (simp add: after_calls_def)

lemma after_calls_no_faults: "faults s = [] \<Longrightarrow> after_calls n s = s"
  by (simp add: after_calls_def)

section \<open>The repository when its calls go through\<close>

lemma by_id_desc_head:
  assumes "by_id_desc ms = m # rest"
  shows "m \<in> set ms \<and> (\<forall>m' \<in> set ms. sint (ID m') \<le> sint (ID m))"
proof -
  have "set (by_id_desc ms) = set ms" by (simp add: by_id_desc_def)
  with assms have s: "set ms = insert m (set rest)" by auto
  have "sorted (map (\<lambda>m. - sint (ID m)) (by_id_desc ms))"
    by (simp add: by_id_desc_def)
  with assms have "\<forall>m' \<in> set rest. - sint (ID m) \<le> - sint (ID m')" by simp
  with s show ?thesis by auto
qed

lemma by_id_desc_Nil: "by_id_desc ms = [] \<longleftrightarrow> ms = []"
proof -
  have "length (by_id_desc ms) = length ms" by (simp add: by_id_desc_def)
  then show ?thesis by (metis length_0_conv)
qed

lemma by_id_desc_head_max:
  assumes "by_id_desc ms = m # rest"
  shows "sint (ID m) = max_id ms"
proof -
  from by_id_desc_head [OF assms]
  have "m \<in> set ms" and "\<forall>m' \<in> set ms. sint (ID m') \<le> sint (ID m)" by simp_all
  then show ?thesis unfolding max_id_def
    by (intro Max_eqI [symmetric]) auto
qed

lemma GetNextID_ok:
  assumes "calls_ok 1 s"
  shows "MongoMovieRepository_GetNextID s =
           (Inr (case by_id_desc (docs s) of [] \<Rightarrow> 1 | m # _ \<Rightarrow> ID m + 1), after_calls 1 s)"
  using driver_call_ok [of 0 s] assms
  by (simp add: MongoMovieRepository_GetNextID_def Collection_FindOne_desc_def
      split: list.splits)

lemma GetNextID_fault:
  assumes "faults s = Some msg # fs"
  shows "MongoMovieRepository_GetNextID s =
           (Inl (fmt_Errorf ''failed to get max movie ID'' (DriverError msg)), after_calls 1 s)"
  using driver_call_fault [OF assms]
  by (simp add: MongoMovieRepository_GetNextID_def Collection_FindOne_desc_def)

lemma sint_succ_wraps:
  assumes "sint (a :: int32) = 2 ^ 31 - 1"
  shows "sint (a + 1) = - (2 ^ 31)"
proof -
  have "sint (a + 1) = signed_take_bit 31 (sint a + 1)"
    by (simp add: sint_word_add)
  also have "\<dots> = signed_take_bit 31 (2147483648 :: int)"
    using assms by simp
  also have "\<dots> = - (2 ^ 31)"
    by (simp add: signed_take_bit_eq_take_bit_minus take_bit_eq_mod)
  finally show ?thesis .
qed

lemma ExistsByID_ok:
  assumes "calls_ok 1 s"
  shows "MongoMovieRepository_ExistsByID mid s =
           (Inr (\<exists>m \<in> set (docs s). ID m = mid), after_calls 1 s)"
proof -
  have "(0 < length (filter (\<lambda>m. ID m = mid) (docs s))) = (\<exists>m \<in> set (docs s). ID m = mid)"
    by (simp add: filter_empty_conv)
  with driver_call_ok [of 0 s] assms show ?thesis
    by (simp add: MongoMovieRepository_ExistsByID_def Collection_CountDocuments_def)
qed

lemma Count_ok:
  assumes "calls_ok 1 s"
  shows "MongoMovieRepository_Count s = (Inr (word_of_int (int (length (docs s)))), after_calls 1 s)"
  using driver_call_ok [of 0 s] assms
  by (simp add: MongoMovieRepository_Count_def Collection_CountDocuments_def)

lemma Create_ok:
  assumes "calls_ok 1 s" and "Validate movie = None"
    and "\<forall>m \<in> set (docs s). ID m \<noteq> ID movie"
  shows "MongoMovieRepository_Create movie s =
           (Inr movie, (after_calls 1 s)\<lparr>docs := docs s @ [movie]\<rparr>)"
  using driver_call_ok [of 0 s] assms
  by (auto simp: MongoMovieRepository_Create_def Collection_InsertOne_def)

lemma FindAll_ok:
  assumes "calls_ok 2 s" and "0 \<le> sint ((Page flt - 1) * Limit flt)"
  shows "MongoMovieRepository_FindAll flt s =
           (Inr (apply_limit (sint (Limit flt))
                  (drop (nat (sint ((Page flt - 1) * Limit flt))) (by_id_asc (docs s)))),
            after_calls 2 s)"
proof -
  from assms(1) have a: "driver_call s = (None, after_calls 1 s)"
    and b: "calls_ok 1 (after_calls 1 s)"
    using driver_call_ok [of 1 s] calls_ok_after [of 1 s] by (simp_all add: numeral_2_eq_2)
  from b have c: "driver_call (after_calls 1 s) = (None, after_calls 2 s)"
    using driver_call_ok [of 0 "after_calls 1 s"] by (simp add: after_calls_add numeral_2_eq_2)
  from a c assms(2) show ?thesis
    by (simp add: MongoMovieRepository_FindAll_def Collection_Find_def Cursor_All_def Let_def)
qed


section \<open>The next id\<close>

text \<open>
  C6. \<^verbatim>\<open>GetNextID\<close> makes exactly one call of the driver, the query for the document
  of highest id. When that query goes through, it returns 1 on the empty collection
  and otherwise the highest stored id plus one, the sum being that of \<^verbatim>\<open>int32\<close>:
  the number one greater when the highest id is below the largest \<^verbatim>\<open>int32\<close>, and
  the smallest \<^verbatim>\<open>int32\<close> when it is the largest. When the query fails, it returns
  the failure of the query behind the prefix \<^verbatim>\<open>failed to get max movie ID\<close>, and no
  id.
\<close>

theorem GetNextID_max_plus_one:
  "(calls_ok 1 s \<and> docs s = [] \<longrightarrow> fst (MongoMovieRepository_GetNextID s) = Inr 1) \<and>
   (calls_ok 1 s \<and> docs s \<noteq> [] \<longrightarrow>
      (\<exists>m \<in> set (docs s).
         sint (ID m) = max_id (docs s) \<and>
         fst (MongoMovieRepository_GetNextID s) = Inr (ID m + 1) \<and>
         (max_id (docs s) < 2 ^ 31 - 1 \<longrightarrow> sint (ID m + 1) = max_id (docs s) + 1) \<and>
         (max_id (docs s) = 2 ^ 31 - 1 \<longrightarrow> sint (ID m + 1) = - (2 ^ 31)))) \<and>
   (\<not> calls_ok 1 s \<longrightarrow>
      (\<exists>msg fs. faults s = Some msg # fs \<and>
         fst (MongoMovieRepository_GetNextID s) =
           Inl (fmt_Errorf ''failed to get max movie ID'' (DriverError msg)))) \<and>
   snd (MongoMovieRepository_GetNextID s) = after_calls 1 s"
proof -
  have fault: "\<exists>msg fs. faults s = Some msg # fs \<and>
         fst (MongoMovieRepository_GetNextID s) =
           Inl (fmt_Errorf ''failed to get max movie ID'' (DriverError msg))"
    if "\<not> calls_ok 1 s"
  proof -
    from not_calls_ok_fault [OF that] obtain msg fs where f: "faults s = Some msg # fs"
      by blast
    from GetNextID_fault [OF f] f show ?thesis by simp
  qed
  have st: "snd (MongoMovieRepository_GetNextID s) = after_calls 1 s"
    using snd_driver_call [of s]
    by (cases "driver_call s")
       (auto simp: MongoMovieRepository_GetNextID_def Collection_FindOne_desc_def
             split: option.splits list.splits)
  have empty: "fst (MongoMovieRepository_GetNextID s) = Inr 1"
    if "calls_ok 1 s" "docs s = []"
    using that by (simp add: GetNextID_ok by_id_desc_def)
  have nonempty: "\<exists>m \<in> set (docs s).
         sint (ID m) = max_id (docs s) \<and>
         fst (MongoMovieRepository_GetNextID s) = Inr (ID m + 1) \<and>
         (max_id (docs s) < 2 ^ 31 - 1 \<longrightarrow> sint (ID m + 1) = max_id (docs s) + 1) \<and>
         (max_id (docs s) = 2 ^ 31 - 1 \<longrightarrow> sint (ID m + 1) = - (2 ^ 31))"
    if ok: "calls_ok 1 s" and ne: "docs s \<noteq> []"
  proof -
    from ne obtain m rest where c: "by_id_desc (docs s) = m # rest"
      using by_id_desc_Nil [of "docs s"] by (cases "by_id_desc (docs s)") auto
    from by_id_desc_head [OF c] have mem: "m \<in> set (docs s)" by simp
    have mx: "sint (ID m) = max_id (docs s)" by (rule by_id_desc_head_max [OF c])
    have nowrap: "sint (ID m + 1) = sint (ID m) + 1" if "sint (ID m) < 2 ^ 31 - 1"
    proof -
      have lo: "- (2 ^ 31) \<le> sint (ID m)" using sint_ge [of "ID m"] by simp
      have "sint (ID m + 1) = signed_take_bit 31 (sint (ID m) + 1)"
        by (simp add: sint_word_add)
      also have "\<dots> = sint (ID m) + 1"
        using lo that by (intro signed_take_bit_int_eq_self) simp_all
      finally show ?thesis .
    qed
    have wrap: "sint (ID m + 1) = - (2 ^ 31)" if "sint (ID m) = 2 ^ 31 - 1"
      using that by (rule sint_succ_wraps)
    have r: "fst (MongoMovieRepository_GetNextID s) = Inr (ID m + 1)"
      using c by (simp add: GetNextID_ok [OF ok])
    from mem mx r nowrap wrap show ?thesis by auto
  qed
  from empty nonempty fault st show ?thesis by blast
qed

theorem GetNextID_max_plus_one_witness:
  "calls_ok 1 \<lparr>docs = [\<lparr>ID = 3, Title = ''A'', Year = ''2000''\<rparr>,
                       \<lparr>ID = 7, Title = ''B'', Year = ''2001''\<rparr>,
                       \<lparr>ID = 5, Title = ''C'', Year = ''2002''\<rparr>], faults = []\<rparr> \<and>
   fst (MongoMovieRepository_GetNextID
          \<lparr>docs = [\<lparr>ID = 3, Title = ''A'', Year = ''2000''\<rparr>,
                   \<lparr>ID = 7, Title = ''B'', Year = ''2001''\<rparr>,
                   \<lparr>ID = 5, Title = ''C'', Year = ''2002''\<rparr>], faults = []\<rparr>) = Inr 8 \<and>
   calls_ok 1 \<lparr>docs = [], faults = []\<rparr> \<and>
   fst (MongoMovieRepository_GetNextID \<lparr>docs = [], faults = []\<rparr>) = Inr 1 \<and>
   \<not> calls_ok 1 \<lparr>docs = [], faults = [Some ''timeout'']\<rparr> \<and>
   fst (MongoMovieRepository_GetNextID \<lparr>docs = [], faults = [Some ''timeout'']\<rparr>) =
     Inl (fmt_Errorf ''failed to get max movie ID'' (DriverError ''timeout''))"
proof -
  let ?s = "\<lparr>docs = [\<lparr>ID = 3, Title = ''A'', Year = ''2000''\<rparr>,
                   \<lparr>ID = 7, Title = ''B'', Year = ''2001''\<rparr>,
                   \<lparr>ID = 5, Title = ''C'', Year = ''2002''\<rparr>], faults = []\<rparr>"
  let ?e = "\<lparr>docs = [], faults = []\<rparr>"
  let ?f = "\<lparr>docs = [], faults = [Some ''timeout'']\<rparr>"
  have ok: "calls_ok 1 ?s" "calls_ok 1 ?e" and nok: "\<not> calls_ok 1 ?f"
    by (simp_all add: calls_ok_def)
  have ne: "docs ?s \<noteq> []" and em: "docs ?e = []" by simp_all
  have mx: "max_id (docs ?s) = 7" by (simp add: max_id_def)
  from GetNextID_max_plus_one [of ?s, THEN conjunct2, THEN conjunct1] ok(1) ne
  have "\<exists>m \<in> set (docs ?s). sint (ID m) = max_id (docs ?s) \<and>
          fst (MongoMovieRepository_GetNextID ?s) = Inr (ID m + 1)" by blast
  then have "\<exists>m \<in> set (docs ?s). sint (ID m) = 7 \<and>
          fst (MongoMovieRepository_GetNextID ?s) = Inr (ID m + 1)" unfolding mx .
  then have a: "fst (MongoMovieRepository_GetNextID ?s) = Inr 8" by auto
  from GetNextID_max_plus_one [of ?e, THEN conjunct1] ok(2) em
  have b: "fst (MongoMovieRepository_GetNextID ?e) = Inr 1" by blast
  from GetNextID_max_plus_one [of ?f, THEN conjunct2, THEN conjunct2, THEN conjunct1] nok
  obtain msg fs where "faults ?f = Some msg # fs"
    and "fst (MongoMovieRepository_GetNextID ?f) =
           Inl (fmt_Errorf ''failed to get max movie ID'' (DriverError msg))" by blast
  then have c: "fst (MongoMovieRepository_GetNextID ?f) =
     Inl (fmt_Errorf ''failed to get max movie ID'' (DriverError ''timeout''))" by simp
  show ?thesis by (intro conjI) (fact ok nok a b c)+
qed

text \<open>
  At the largest \<^verbatim>\<open>int32\<close> the sum wraps around and the answer is not the number
  one greater than the highest id; and when the query fails on the empty collection
  the answer is an error, not 1.
\<close>

theorem GetNextID_wraps_or_fails:
  "max_id [\<lparr>ID = 2147483647, Title = ''A'', Year = ''2000''\<rparr>] = 2147483647 \<and>
   fst (MongoMovieRepository_GetNextID
          \<lparr>docs = [\<lparr>ID = 2147483647, Title = ''A'', Year = ''2000''\<rparr>], faults = []\<rparr>) =
     Inr (- 2147483648) \<and>
   sint (- 2147483648 :: int32) = - 2147483648 \<and>
   fst (MongoMovieRepository_GetNextID \<lparr>docs = [], faults = [Some ''timeout'']\<rparr>) =
     Inl (fmt_Errorf ''failed to get max movie ID'' (DriverError ''timeout''))"
  by (simp add: max_id_def MongoMovieRepository_GetNextID_def Collection_FindOne_desc_def
      driver_call_def by_id_desc_def)

section \<open>Deleting what is not there\<close>

lemma DeleteMovie_absent:
  assumes "0 < sint mid" and "\<forall>m \<in> set (docs s). ID m \<noteq> mid" and "calls_ok 1 s"
  shows "DeleteMovie NewMongoMovieRepository mid s = (Some ErrMovieNotFound, after_calls 1 s)"
  using assms ExistsByID_ok [OF assms(3), of mid]
  by (simp add: DeleteMovie_def NewMongoMovieRepository_def)

text \<open>
  C7. For an id above 0 that no stored record has, and with the calls of the driver
  going through, every one of \<open>n\<close> calls of \<^verbatim>\<open>DeleteMovie\<close> in a row returns
  \<^verbatim>\<open>ErrMovieNotFound\<close> and nothing else, and the documents of the collection are
  what they were; where no fault is scheduled the whole store is unchanged.
\<close>

theorem DeleteMovie_absent_repeated:
  assumes "0 < sint mid" and "\<forall>m \<in> set (docs s). ID m \<noteq> mid" and "calls_ok n s"
  shows "DeleteMovie_times NewMongoMovieRepository mid n s =
           (replicate n (Some ErrMovieNotFound), after_calls n s) \<and>
         docs (after_calls n s) = docs s \<and>
         (faults s = [] \<longrightarrow> after_calls n s = s)"
proof -
  have "DeleteMovie_times NewMongoMovieRepository mid n s =
           (replicate n (Some ErrMovieNotFound), after_calls n s)"
    using assms(2,3)
  proof (induction n arbitrary: s)
    case 0
    show ?case by (simp add: after_calls_def)
  next
    case (Suc n)
    from Suc.prems(2) have ok1: "calls_ok 1 s" and okn: "calls_ok n (after_calls 1 s)"
      using calls_ok_Suc calls_ok_after by simp_all
    have d: "DeleteMovie NewMongoMovieRepository mid s =
               (Some ErrMovieNotFound, after_calls 1 s)"
      using DeleteMovie_absent [OF assms(1) Suc.prems(1) ok1] .
    have "DeleteMovie_times NewMongoMovieRepository mid n (after_calls 1 s) =
            (replicate n (Some ErrMovieNotFound), after_calls n (after_calls 1 s))"
      using Suc.IH [of "after_calls 1 s"] Suc.prems(1) okn by simp
    with d show ?case by (simp add: after_calls_add)
  qed
  then show ?thesis by (simp add: after_calls_no_faults)
qed

theorem DeleteMovie_absent_repeated_witness:
  "(0 < sint (999 :: int32) \<and>
    999 \<notin> ID ` set (docs \<lparr>docs = [\<lparr>ID = 1, Title = ''A'', Year = ''2000''\<rparr>], faults = []\<rparr>) \<and>
    calls_ok 3 \<lparr>docs = [\<lparr>ID = 1, Title = ''A'', Year = ''2000''\<rparr>], faults = []\<rparr>) \<and>
   DeleteMovie_times NewMongoMovieRepository 999 3
     \<lparr>docs = [\<lparr>ID = 1, Title = ''A'', Year = ''2000''\<rparr>], faults = []\<rparr> =
     ([Some ErrMovieNotFound, Some ErrMovieNotFound, Some ErrMovieNotFound],
      \<lparr>docs = [\<lparr>ID = 1, Title = ''A'', Year = ''2000''\<rparr>], faults = []\<rparr>)"
proof -
  let ?s = "\<lparr>docs = [\<lparr>ID = 1, Title = ''A'', Year = ''2000''\<rparr>], faults = []\<rparr>"
  have h: "0 < sint (999 :: int32)" "\<forall>m \<in> set (docs ?s). ID m \<noteq> 999" "calls_ok 3 ?s"
    by (simp_all add: calls_ok_def)
  from DeleteMovie_absent_repeated [OF h] h show ?thesis
    by (simp add: after_calls_def numeral_3_eq_3)
qed

section \<open>Ids that are not positive\<close>

text \<open>
  C8. For an id of 0 or less, \<^verbatim>\<open>GetMovie\<close> and \<^verbatim>\<open>DeleteMovie\<close> fail with
  \<^verbatim>\<open>ErrInvalidMovieData\<close> and hand back the state they were given, whatever the
  repository and whatever its state: no operation of the repository has run. This
  holds in particular for a repository whose every operation fails and counts its
  calls.
\<close>

theorem nonpositive_id_fails_fast:
  assumes "sint mid \<le> 0"
  shows "GetMovie repo mid s = (Inl ErrInvalidMovieData, s) \<and>
         DeleteMovie repo mid s = (Some ErrInvalidMovieData, s)"
  using assms by (simp add: GetMovie_def DeleteMovie_def)

theorem nonpositive_id_fails_fast_witness:
  "sint (- 1 :: int32) \<le> 0 \<and>
   GetMovie failing_repository (- 1) 0 = (Inl ErrInvalidMovieData, 0) \<and>
   DeleteMovie failing_repository (- 1) 0 = (Some ErrInvalidMovieData, 0)"
proof -
  have h: "sint (- 1 :: int32) \<le> 0" by simp
  from nonpositive_id_fails_fast [OF h, of failing_repository 0] h show ?thesis by simp
qed

section \<open>Listing when the count fails\<close>

text \<open>
  C9. When the listing of the repository succeeds, \<^verbatim>\<open>GetMovies\<close> never fails: if
  the count that follows fails it returns the listed page with a total of 0, and if
  the count succeeds it returns the listed page with the counted total.
\<close>

theorem GetMovies_count_failure:
  assumes "FindAll repo (normalize flt) s = (Inr movies, s1)"
  shows "(Count repo s1 = (Inl err, s2) \<longrightarrow> GetMovies repo flt s = (Inr (movies, 0), s2)) \<and>
         (Count repo s1 = (Inr n, s2) \<longrightarrow> GetMovies repo flt s = (Inr (movies, n), s2))"
  using assms by (simp add: GetMovies_def)

theorem GetMovies_count_failure_witness:
  "FindAll NewMongoMovieRepository (normalize \<lparr>Page = 1, Limit = 10\<rparr>)
     \<lparr>docs = [\<lparr>ID = 1, Title = ''A'', Year = ''2000''\<rparr>],
      faults = [None, None, Some ''timeout'']\<rparr> =
     (Inr [\<lparr>ID = 1, Title = ''A'', Year = ''2000''\<rparr>],
      \<lparr>docs = [\<lparr>ID = 1, Title = ''A'', Year = ''2000''\<rparr>], faults = [Some ''timeout'']\<rparr>) \<and>
   Count NewMongoMovieRepository
     \<lparr>docs = [\<lparr>ID = 1, Title = ''A'', Year = ''2000''\<rparr>], faults = [Some ''timeout'']\<rparr> =
     (Inl (fmt_Errorf ''failed to count movies'' (DriverError ''timeout'')),
      \<lparr>docs = [\<lparr>ID = 1, Title = ''A'', Year = ''2000''\<rparr>], faults = []\<rparr>) \<and>
   GetMovies NewMongoMovieRepository \<lparr>Page = 1, Limit = 10\<rparr>
     \<lparr>docs = [\<lparr>ID = 1, Title = ''A'', Year = ''2000''\<rparr>],
      faults = [None, None, Some ''timeout'']\<rparr> =
     (Inr ([\<lparr>ID = 1, Title = ''A'', Year = ''2000''\<rparr>], 0),
      \<lparr>docs = [\<lparr>ID = 1, Title = ''A'', Year = ''2000''\<rparr>], faults = []\<rparr>) \<and>
   FindAll NewMongoMovieRepository (normalize \<lparr>Page = 1, Limit = 10\<rparr>)
     \<lparr>docs = [\<lparr>ID = 1, Title = ''A'', Year = ''2000''\<rparr>], faults = []\<rparr> =
     (Inr [\<lparr>ID = 1, Title = ''A'', Year = ''2000''\<rparr>],
      \<lparr>docs = [\<lparr>ID = 1, Title = ''A'', Year = ''2000''\<rparr>], faults = []\<rparr>) \<and>
   Count NewMongoMovieRepository
     \<lparr>docs = [\<lparr>ID = 1, Title = ''A'', Year = ''2000''\<rparr>], faults = []\<rparr> =
     (Inr 1, \<lparr>docs = [\<lparr>ID = 1, Title = ''A'', Year = ''2000''\<rparr>], faults = []\<rparr>) \<and>
   GetMovies NewMongoMovieRepository \<lparr>Page = 1, Limit = 10\<rparr>
     \<lparr>docs = [\<lparr>ID = 1, Title = ''A'', Year = ''2000''\<rparr>], faults = []\<rparr> =
     (Inr ([\<lparr>ID = 1, Title = ''A'', Year = ''2000''\<rparr>], 1),
      \<lparr>docs = [\<lparr>ID = 1, Title = ''A'', Year = ''2000''\<rparr>], faults = []\<rparr>)"
proof -
  let ?m = "\<lparr>ID = 1, Title = ''A'', Year = ''2000''\<rparr>"
  let ?f = "\<lparr>Page = 1, Limit = 10\<rparr>"
  let ?s = "\<lparr>docs = [?m], faults = [None, None, Some ''timeout'']\<rparr>"
  let ?s1 = "\<lparr>docs = [?m], faults = [Some ''timeout'']\<rparr>"
  let ?s2 = "\<lparr>docs = [?m], faults = []\<rparr>"
  have l1: "FindAll NewMongoMovieRepository (normalize ?f) ?s = (Inr [?m], ?s1)"
    by (simp add: NewMongoMovieRepository_def normalize_def MongoMovieRepository_FindAll_def
        Collection_Find_def Cursor_All_def driver_call_def by_id_asc_def apply_limit_def)
  have c1: "Count NewMongoMovieRepository ?s1 =
      (Inl (fmt_Errorf ''failed to count movies'' (DriverError ''timeout'')), ?s2)"
    by (simp add: NewMongoMovieRepository_def MongoMovieRepository_Count_def
        Collection_CountDocuments_def driver_call_def)
  have l2: "FindAll NewMongoMovieRepository (normalize ?f) ?s2 = (Inr [?m], ?s2)"
    by (simp add: NewMongoMovieRepository_def normalize_def MongoMovieRepository_FindAll_def
        Collection_Find_def Cursor_All_def driver_call_def by_id_asc_def apply_limit_def)
  have c2: "Count NewMongoMovieRepository ?s2 = (Inr 1, ?s2)"
    by (simp add: NewMongoMovieRepository_def MongoMovieRepository_Count_def
        Collection_CountDocuments_def driver_call_def)
  from GetMovies_count_failure [OF l1] c1
  have g1: "GetMovies NewMongoMovieRepository ?f ?s = (Inr ([?m], 0), ?s2)" by blast
  from GetMovies_count_failure [OF l2] c2
  have g2: "GetMovies NewMongoMovieRepository ?f ?s2 = (Inr ([?m], 1), ?s2)" by blast
  from l1 c1 g1 l2 c2 g2 show ?thesis by blast
qed

section \<open>Pages\<close>

text \<open>
  The skip is computed in \<^verbatim>\<open>int32\<close> and wraps around; as long as
  \<open>(page - 1) * limit\<close> is below \<open>2 ^ 31\<close> it is that number.
\<close>

lemma take_drop_slice:
  "take n (drop lo xs) = map ((!) xs) [lo ..< min (lo + n) (length xs)]"
proof (rule nth_equalityI)
  show "length (take n (drop lo xs)) = length (map ((!) xs) [lo ..< min (lo + n) (length xs)])"
    by auto
next
  fix i
  assume "i < length (take n (drop lo xs))"
  then have i: "i < n" "lo + i < length xs" by auto
  then have b: "lo + i < min (lo + n) (length xs)" by simp
  then have "i < length [lo ..< min (lo + n) (length xs)]" by auto
  then have "map ((!) xs) [lo ..< min (lo + n) (length xs)] ! i =
      xs ! ([lo ..< min (lo + n) (length xs)] ! i)"
    by (rule nth_map)
  also have "\<dots> = xs ! (lo + i)" using b by (simp only: nth_upt)
  finally show "take n (drop lo xs) ! i = map ((!) xs) [lo ..< min (lo + n) (length xs)] ! i"
    using i by simp
qed

lemma calls_ok_mono: "m \<le> n \<Longrightarrow> calls_ok n s \<Longrightarrow> calls_ok m s"
  using set_take_subset_set_take [of m n "faults s"]
  by (auto simp: calls_ok_def list_all_iff)

lemma calls_ok_add: "calls_ok (a + b) s \<Longrightarrow> calls_ok b (after_calls a s)"
  by (simp add: calls_ok_def after_calls_def take_add)

lemma sint_skip:
  assumes "1 \<le> sint (a :: int32)" and "0 \<le> sint (b :: int32)"
    and "(sint a - 1) * sint b < 2 ^ 31"
  shows "sint ((a - 1) * b) = (sint a - 1) * sint b"
proof -
  have hi: "sint a < 2 ^ 31" using sint_lt [of a] by simp
  have "sint (a - 1) = signed_take_bit 31 (sint a - 1)"
    by (simp add: sint_word_diff)
  also have "\<dots> = sint a - 1"
    using assms(1) hi by (intro signed_take_bit_int_eq_self) simp_all
  finally have a1: "sint (a - 1) = sint a - 1" .
  have nn: "0 \<le> (sint a - 1) * sint b" using assms(1,2) by simp
  have "sint ((a - 1) * b) = signed_take_bit 31 (sint (a - 1) * sint b)"
    by (simp add: sint_word_mult)
  also have "\<dots> = (sint a - 1) * sint b"
    unfolding a1 using nn assms(3) by (intro signed_take_bit_int_eq_self) simp_all
  finally show ?thesis .
qed

lemma normalize_id:
  "1 \<le> sint (Page flt) \<Longrightarrow> 1 \<le> sint (Limit flt) \<Longrightarrow> sint (Limit flt) \<le> 100 \<Longrightarrow>
   normalize flt = flt"
  by (simp add: normalize_def)

lemma by_id_asc_sorted: "sorted (map (\<lambda>m. sint (ID m)) (by_id_asc ms))"
  by (simp add: by_id_asc_def)

text \<open>
  C5. With the three calls of the driver going through, a page \<open>p\<close> of 1 or more, a
  limit \<open>l\<close> between 1 and 100 and \<open>(p - 1) * l\<close> below \<open>2 ^ 31\<close>, \<^verbatim>\<open>GetMovies\<close>
  returns the records at the positions from \<open>(p - 1) * l\<close> up to, and without,
  \<open>min (p * l) N\<close> of the collection sorted by ascending id, in that order, where
  \<open>N\<close> is the number of records; the total is \<open>N\<close> as an \<^verbatim>\<open>int32\<close>. A page that
  starts at or beyond \<open>N\<close> is the empty sequence, with no error.
\<close>

theorem GetMovies_page:
  assumes "calls_ok 3 s"
    and "p = sint (Page flt)" and "l = sint (Limit flt)"
    and "1 \<le> p" and "1 \<le> l" and "l \<le> 100"
    and "(p - 1) * l < 2 ^ 31"
  shows "GetMovies NewMongoMovieRepository flt s =
           (Inr (map ((!) (by_id_asc (docs s)))
                   [nat ((p - 1) * l) ..< min (nat (p * l)) (length (docs s))],
                 word_of_int (int (length (docs s)))),
            after_calls 3 s) \<and>
         sorted (map (\<lambda>m. sint (ID m)) (by_id_asc (docs s))) \<and>
         set (by_id_asc (docs s)) = set (docs s) \<and>
         length (by_id_asc (docs s)) = length (docs s) \<and>
         (int (length (docs s)) \<le> (p - 1) * l \<longrightarrow>
            fst (GetMovies NewMongoMovieRepository flt s) = Inr ([], word_of_int (int (length (docs s)))))"
proof -
  let ?xs = "by_id_asc (docs s)"
  let ?lo = "nat ((p - 1) * l)"
  have len: "length ?xs = length (docs s)" by (simp add: by_id_asc_def)
  have nf: "normalize flt = flt" using assms(2-6) by (intro normalize_id) simp_all
  have sk: "sint ((Page flt - 1) * Limit flt) = (p - 1) * l"
    using assms(2-7) by (simp add: sint_skip)
  have nn: "0 \<le> (p - 1) * l" using assms(4,5) by simp
  from assms(1) have ok2: "calls_ok 2 s" and ok1: "calls_ok 1 (after_calls 2 s)"
    using calls_ok_mono [of 2 3 s] calls_ok_add [of 2 1 s] by simp_all
  have fa: "MongoMovieRepository_FindAll flt s = (Inr (take (nat l) (drop ?lo ?xs)), after_calls 2 s)"
    using FindAll_ok [OF ok2, of flt] sk nn assms(3,5) by (simp add: apply_limit_def)
  have cnt: "MongoMovieRepository_Count (after_calls 2 s) =
               (Inr (word_of_int (int (length (docs s)))), after_calls 3 s)"
    using Count_ok [OF ok1] by (simp add: after_calls_add numeral_3_eq_3 numeral_2_eq_2)
  have "?lo + nat l = nat (p * l)"
    using assms(4,5) nn by (simp add: nat_add_distrib [symmetric] algebra_simps)
  then have sl: "take (nat l) (drop ?lo ?xs) =
      map ((!) ?xs) [?lo ..< min (nat (p * l)) (length (docs s))]"
    using take_drop_slice [of "nat l" ?lo ?xs] len by simp
  have g: "GetMovies NewMongoMovieRepository flt s =
           (Inr (map ((!) ?xs) [?lo ..< min (nat (p * l)) (length (docs s))],
                 word_of_int (int (length (docs s)))),
            after_calls 3 s)"
    using fa cnt sl nf by (simp add: GetMovies_def NewMongoMovieRepository_def)
  have e: "[?lo ..< min (nat (p * l)) (length (docs s))] = []"
    if "int (length (docs s)) \<le> (p - 1) * l"
    using that by simp
  show ?thesis
    using g e len by (simp add: by_id_asc_sorted by_id_asc_def)
qed

theorem GetMovies_page_witness:
  "(calls_ok 3 \<lparr>docs = [\<lparr>ID = 3, Title = ''A'', Year = ''2000''\<rparr>,
                        \<lparr>ID = 1, Title = ''B'', Year = ''2001''\<rparr>,
                        \<lparr>ID = 2, Title = ''C'', Year = ''2002''\<rparr>], faults = []\<rparr> \<and>
    (2::int) = sint (Page \<lparr>Page = 2, Limit = 2\<rparr>) \<and>
    (2::int) = sint (Limit \<lparr>Page = 2, Limit = 2\<rparr>) \<and>
    (1::int) \<le> 2 \<and> (2::int) \<le> 100 \<and> ((2::int) - 1) * 2 < 2 ^ 31) \<and>
   GetMovies NewMongoMovieRepository \<lparr>Page = 2, Limit = 2\<rparr>
     \<lparr>docs = [\<lparr>ID = 3, Title = ''A'', Year = ''2000''\<rparr>,
              \<lparr>ID = 1, Title = ''B'', Year = ''2001''\<rparr>,
              \<lparr>ID = 2, Title = ''C'', Year = ''2002''\<rparr>], faults = []\<rparr> =
     (Inr ([\<lparr>ID = 3, Title = ''A'', Year = ''2000''\<rparr>], 3),
      \<lparr>docs = [\<lparr>ID = 3, Title = ''A'', Year = ''2000''\<rparr>,
               \<lparr>ID = 1, Title = ''B'', Year = ''2001''\<rparr>,
               \<lparr>ID = 2, Title = ''C'', Year = ''2002''\<rparr>], faults = []\<rparr>) \<and>
   fst (GetMovies NewMongoMovieRepository \<lparr>Page = 3, Limit = 2\<rparr>
     \<lparr>docs = [\<lparr>ID = 3, Title = ''A'', Year = ''2000''\<rparr>,
              \<lparr>ID = 1, Title = ''B'', Year = ''2001''\<rparr>,
              \<lparr>ID = 2, Title = ''C'', Year = ''2002''\<rparr>], faults = []\<rparr>) = Inr ([], 3)"
proof -
  let ?s = "\<lparr>docs = [\<lparr>ID = 3, Title = ''A'', Year = ''2000''\<rparr>,
                   \<lparr>ID = 1, Title = ''B'', Year = ''2001''\<rparr>,
                   \<lparr>ID = 2, Title = ''C'', Year = ''2002''\<rparr>], faults = []\<rparr>"
  let ?f = "\<lparr>Page = 2, Limit = 2\<rparr>"
  have h: "calls_ok 3 ?s" "(2::int) = sint (Page ?f)" "(2::int) = sint (Limit ?f)"
    "(1::int) \<le> 2" "(1::int) \<le> 2" "(2::int) \<le> 100" "((2::int) - 1) * 2 < 2 ^ 31"
    by (simp_all add: calls_ok_def)
  have srt: "by_id_asc (docs ?s) = [\<lparr>ID = 1, Title = ''B'', Year = ''2001''\<rparr>,
      \<lparr>ID = 2, Title = ''C'', Year = ''2002''\<rparr>, \<lparr>ID = 3, Title = ''A'', Year = ''2000''\<rparr>]"
    by (simp add: by_id_asc_def)
  have upt: "[nat (((2::int) - 1) * 2) ..< min (nat ((2::int) * 2)) (length (docs ?s))] = [2]"
    by simp
  have "GetMovies NewMongoMovieRepository ?f ?s =
           (Inr (map ((!) (by_id_asc (docs ?s)))
                   [nat (((2::int) - 1) * 2) ..< min (nat ((2::int) * 2)) (length (docs ?s))],
                 word_of_int (int (length (docs ?s)))),
            after_calls 3 ?s)"
    by (rule GetMovies_page [OF h, THEN conjunct1])
  then have g: "GetMovies NewMongoMovieRepository ?f ?s =
     (Inr ([\<lparr>ID = 3, Title = ''A'', Year = ''2000''\<rparr>], 3), ?s)"
    unfolding srt upt by (simp add: after_calls_def)
  let ?f3 = "\<lparr>Page = 3, Limit = 2\<rparr>"
  have h3: "calls_ok 3 ?s" "(3::int) = sint (Page ?f3)" "(2::int) = sint (Limit ?f3)"
    "(1::int) \<le> 3" "(1::int) \<le> 2" "(2::int) \<le> 100" "((3::int) - 1) * 2 < 2 ^ 31"
    by (simp_all add: calls_ok_def)
  have beyond: "int (length (docs ?s)) \<le> ((3::int) - 1) * 2" by simp
  have "fst (GetMovies NewMongoMovieRepository ?f3 ?s) =
      Inr ([], word_of_int (int (length (docs ?s))))"
    using GetMovies_page [OF h3, THEN conjunct2, THEN conjunct2, THEN conjunct2,
      THEN conjunct2] beyond by (rule mp)
  then have e: "fst (GetMovies NewMongoMovieRepository ?f3 ?s) = Inr ([], 3)" by simp
  show ?thesis by (intro conjI) (fact h g e)+
qed

text \<open>
  Beyond that bound the skip wraps around: with the page \<open>2 ^ 30 + 1\<close> and the limit
  4 the skip is 0, and a page far beyond the only record returns that record.
\<close>

theorem GetMovies_page_overflow:
  "1 \<le> sint (1073741825 :: int32) \<and> 1 \<le> sint (4 :: int32) \<and> sint (4 :: int32) \<le> 100 \<and>
   int (length [\<lparr>ID = 1, Title = ''A'', Year = ''2000''\<rparr>])
     \<le> (sint (1073741825 :: int32) - 1) * sint (4 :: int32) \<and>
   GetMovies NewMongoMovieRepository \<lparr>Page = 1073741825, Limit = 4\<rparr>
     \<lparr>docs = [\<lparr>ID = 1, Title = ''A'', Year = ''2000''\<rparr>], faults = []\<rparr> =
     (Inr ([\<lparr>ID = 1, Title = ''A'', Year = ''2000''\<rparr>], 1),
      \<lparr>docs = [\<lparr>ID = 1, Title = ''A'', Year = ''2000''\<rparr>], faults = []\<rparr>)"
  by (simp add: GetMovies_def NewMongoMovieRepository_def normalize_def
      MongoMovieRepository_FindAll_def MongoMovieRepository_Count_def
      Collection_Find_def Cursor_All_def Collection_CountDocuments_def
      driver_call_def by_id_asc_def apply_limit_def)

section \<open>Creating\<close>

lemma snd_GetNextID: "snd (MongoMovieRepository_GetNextID s) = after_calls 1 s"
  using snd_driver_call [of s]
  by (cases "driver_call s")
     (auto simp: MongoMovieRepository_GetNextID_def Collection_FindOne_desc_def
           split: option.splits list.splits)

lemma NewMovie_Inl_any_id:
  "NewMovie currentYear i title year = Inl e \<Longrightarrow> NewMovie currentYear j title year = Inl e"
  by (auto simp: NewMovie_def Let_def split: if_splits)

lemma NewMovie_errors:
  "NewMovie currentYear i title year = Inl e \<Longrightarrow>
   e \<in> {errors_New ''title cannot be empty'', errors_New ''year cannot be empty'',
        ErrInvalidYear, errors_New ''year must be between 1800 and current year + 10''}"
  by (auto simp: NewMovie_def Let_def split: if_splits)

lemma calls_ok_split:
  "calls_ok n s \<Longrightarrow> n = a + b \<Longrightarrow> calls_ok a s \<and> calls_ok b (after_calls a s)"
  using calls_ok_mono [of a n s] calls_ok_add [of a b s] by simp

lemma sint_succ:
  assumes "sint (a :: int32) < 2 ^ 31 - 1"
  shows "sint (a + 1) = sint a + 1"
proof -
  have lo: "- (2 ^ 31) \<le> sint a" using sint_ge [of a] by simp
  have "sint (a + 1) = signed_take_bit 31 (sint a + 1)"
    by (simp add: sint_word_add)
  also have "\<dots> = sint a + 1"
    using lo assms by (intro signed_take_bit_int_eq_self) simp_all
  finally show ?thesis .
qed

text \<open>
  C3. For a title and a year that satisfy the constraints of creation, with the three
  calls of the driver going through and the next id not that of a stored record,
  \<^verbatim>\<open>CreateMovie\<close> succeeds: it returns, and appends to the collection, the record
  with the next id, the given title and the given year. The id is above 0 when the
  collection is empty or its highest id is at least 0 and below the largest
  \<^verbatim>\<open>int32\<close>.
\<close>

theorem CreateMovie_valid:
  assumes "creation_constraints currentYear title year"
    and "calls_ok 3 s"
    and "fst (MongoMovieRepository_GetNextID s) = Inr nextID"
    and "\<forall>m \<in> set (docs s). ID m \<noteq> nextID"
  shows "CreateMovie NewMongoMovieRepository currentYear title year s =
           (Inr \<lparr>ID = nextID, Title = title, Year = year\<rparr>,
            (after_calls 3 s)\<lparr>docs := docs s @ [\<lparr>ID = nextID, Title = title, Year = year\<rparr>]\<rparr>) \<and>
         (docs s = [] \<or> (0 \<le> max_id (docs s) \<and> max_id (docs s) < 2 ^ 31 - 1)
            \<longrightarrow> 0 < sint nextID)"
proof -
  let ?movie = "\<lparr>ID = nextID, Title = title, Year = year\<rparr>"
  have "calls_ok 1 s \<and> calls_ok 2 (after_calls 1 s)"
    by (rule calls_ok_split [OF assms(2)]) simp
  then have ok1: "calls_ok 1 s" and c2: "calls_ok 2 (after_calls 1 s)" by blast+
  have "calls_ok 1 (after_calls 1 s) \<and> calls_ok 1 (after_calls 1 (after_calls 1 s))"
    by (rule calls_ok_split [OF c2]) simp
  then have ok2: "calls_ok 1 (after_calls 1 s)" by blast
  have "calls_ok 2 s \<and> calls_ok 1 (after_calls 2 s)"
    by (rule calls_ok_split [OF assms(2)]) simp
  then have ok3: "calls_ok 1 (after_calls 2 s)" by blast
  have nid: "nextID = (case by_id_desc (docs s) of [] \<Rightarrow> 1 | m # _ \<Rightarrow> ID m + 1)"
    using assms(3) by (simp add: GetNextID_ok [OF ok1])
  then have g: "MongoMovieRepository_GetNextID s = (Inr nextID, after_calls 1 s)"
    by (simp add: GetNextID_ok [OF ok1])
  have n: "NewMovie currentYear nextID title year = Inr ?movie"
    using assms(1) by (simp add: NewMovie_Inr_iff)
  have v: "Validate ?movie = None" by (rule Validate_NewMovie [OF n])
  have e: "MongoMovieRepository_ExistsByID nextID (after_calls 1 s) = (Inr False, after_calls 2 s)"
    using ExistsByID_ok [OF ok2, of nextID] assms(4)
    by (simp add: after_calls_add numeral_2_eq_2)
  have c: "MongoMovieRepository_Create ?movie (after_calls 2 s) =
             (Inr ?movie, (after_calls 3 s)\<lparr>docs := docs s @ [?movie]\<rparr>)"
    using Create_ok [OF ok3 v] assms(4)
    by (simp add: after_calls_add numeral_3_eq_3 numeral_2_eq_2)
  have r: "CreateMovie NewMongoMovieRepository currentYear title year s =
             (Inr ?movie, (after_calls 3 s)\<lparr>docs := docs s @ [?movie]\<rparr>)"
    using g n e c by (simp add: CreateMovie_def NewMongoMovieRepository_def)
  have pos: "0 < sint nextID"
    if "docs s = [] \<or> (0 \<le> max_id (docs s) \<and> max_id (docs s) < 2 ^ 31 - 1)"
  proof (cases "by_id_desc (docs s)")
    case Nil
    with nid show ?thesis by simp
  next
    case (Cons m rest)
    then have "docs s \<noteq> []" using by_id_desc_Nil [of "docs s"] by auto
    with that have b: "0 \<le> max_id (docs s)" "max_id (docs s) < 2 ^ 31 - 1" by simp_all
    have mx: "sint (ID m) = max_id (docs s)" by (rule by_id_desc_head_max [OF Cons])
    with b have "sint (ID m + 1) = sint (ID m) + 1" by (intro sint_succ) simp
    with mx b Cons nid show ?thesis by simp
  qed
  from r pos show ?thesis by blast
qed

theorem CreateMovie_valid_witness:
  "(creation_constraints 2026 ''Test Movie'' ''2023'' \<and>
    calls_ok 3 \<lparr>docs = [], faults = []\<rparr> \<and>
    fst (MongoMovieRepository_GetNextID \<lparr>docs = [], faults = []\<rparr>) = Inr 1 \<and>
    1 \<notin> ID ` set (docs \<lparr>docs = [], faults = []\<rparr>)) \<and>
   CreateMovie NewMongoMovieRepository 2026 ''Test Movie'' ''2023'' \<lparr>docs = [], faults = []\<rparr> =
     (Inr \<lparr>ID = 1, Title = ''Test Movie'', Year = ''2023''\<rparr>,
      \<lparr>docs = [\<lparr>ID = 1, Title = ''Test Movie'', Year = ''2023''\<rparr>], faults = []\<rparr>) \<and>
   0 < sint (1 :: int32)"
proof -
  let ?s = "\<lparr>docs = [], faults = []\<rparr>"
  have h1: "creation_constraints 2026 ''Test Movie'' ''2023''"
    by (simp add: creation_constraints_def is_digit_def decimal_def digit_val_def)
  have h2: "calls_ok 3 ?s" by (simp add: calls_ok_def)
  have h3: "fst (MongoMovieRepository_GetNextID ?s) = Inr 1"
    by (simp add: MongoMovieRepository_GetNextID_def Collection_FindOne_desc_def
        driver_call_def by_id_desc_def)
  have h4: "\<forall>m \<in> set (docs ?s). ID m \<noteq> 1" by simp
  have g: "CreateMovie NewMongoMovieRepository 2026 ''Test Movie'' ''2023'' ?s =
     (Inr \<lparr>ID = 1, Title = ''Test Movie'', Year = ''2023''\<rparr>,
      \<lparr>docs = [\<lparr>ID = 1, Title = ''Test Movie'', Year = ''2023''\<rparr>], faults = []\<rparr>)"
    using CreateMovie_valid [OF h1 h2 h3 h4, THEN conjunct1] by (simp add: after_calls_def)
  have p: "0 < sint (1 :: int32)"
    using CreateMovie_valid [OF h1 h2 h3 h4, THEN conjunct2] by simp
  have h4': "1 \<notin> ID ` set (docs ?s)" by simp
  show ?thesis by (intro conjI) (fact h1 h2 h3 h4' g p)+
qed

text \<open>
  At the largest \<^verbatim>\<open>int32\<close> the next id wraps around: the creation succeeds with the
  smallest \<^verbatim>\<open>int32\<close> as the id of the new record.
\<close>

theorem CreateMovie_id_wraps:
  "creation_constraints 2026 ''B'' ''2001'' \<and>
   CreateMovie NewMongoMovieRepository 2026 ''B'' ''2001''
     \<lparr>docs = [\<lparr>ID = 2147483647, Title = ''A'', Year = ''2000''\<rparr>], faults = []\<rparr> =
     (Inr \<lparr>ID = - 2147483648, Title = ''B'', Year = ''2001''\<rparr>,
      \<lparr>docs = [\<lparr>ID = 2147483647, Title = ''A'', Year = ''2000''\<rparr>,
               \<lparr>ID = - 2147483648, Title = ''B'', Year = ''2001''\<rparr>], faults = []\<rparr>) \<and>
   \<not> 0 < sint (- 2147483648 :: int32)"
proof -
  let ?a = "\<lparr>ID = 2147483647, Title = ''A'', Year = ''2000''\<rparr>"
  let ?b = "\<lparr>ID = - 2147483648, Title = ''B'', Year = ''2001''\<rparr>"
  let ?s = "\<lparr>docs = [?a], faults = []\<rparr>"
  have c: "creation_constraints 2026 ''B'' ''2001''"
    by (simp add: creation_constraints_def is_digit_def decimal_def digit_val_def)
  have w: "(2147483647 :: int32) + 1 = - 2147483648" by simp
  have g: "MongoMovieRepository_GetNextID ?s = (Inr (- 2147483648), ?s)"
    by (simp add: MongoMovieRepository_GetNextID_def Collection_FindOne_desc_def
        driver_call_def by_id_desc_def)
  have n: "NewMovie 2026 (- 2147483648) ''B'' ''2001'' = Inr ?b"
    using c by (simp add: NewMovie_Inr_iff)
  have e: "MongoMovieRepository_ExistsByID (- 2147483648) ?s = (Inr False, ?s)"
    by (simp add: MongoMovieRepository_ExistsByID_def Collection_CountDocuments_def
        driver_call_def)
  have v: "Validate ?b = None" by (rule Validate_NewMovie [OF n])
  have i: "MongoMovieRepository_Create ?b ?s = (Inr ?b, \<lparr>docs = [?a, ?b], faults = []\<rparr>)"
    by (simp add: MongoMovieRepository_Create_def v Collection_InsertOne_def driver_call_def)
  have r: "CreateMovie NewMongoMovieRepository 2026 ''B'' ''2001'' ?s =
      (Inr ?b, \<lparr>docs = [?a, ?b], faults = []\<rparr>)"
    by (simp add: CreateMovie_def NewMongoMovieRepository_def g n e i)
  have p: "\<not> 0 < sint (- 2147483648 :: int32)" by simp
  show ?thesis by (intro conjI) (fact c r p)+
qed

text \<open>
  C4. For a title and a year that violate the constraints of creation,
  \<^verbatim>\<open>CreateMovie\<close> always fails, makes one call of the driver (the query for the
  next id) and nothing after it, and leaves the documents of the collection as they
  were, so that a count or a search by id made afterwards answers as it would have
  before; where no fault is scheduled the whole store is unchanged. When that one
  call goes through, the failure is the error of \<^verbatim>\<open>NewMovie\<close> behind the prefix
  \<^verbatim>\<open>invalid movie data\<close>. When it fails, the failure is that of the query, behind
  the prefixes \<^verbatim>\<open>failed to generate movie ID\<close> and \<^verbatim>\<open>failed to get max movie ID\<close>.
\<close>

theorem CreateMovie_invalid:
  assumes "\<not> creation_constraints currentYear title year"
  shows "(calls_ok 1 s \<longrightarrow>
            (\<exists>e. (\<forall>i. NewMovie currentYear i title year = Inl e) \<and>
                 CreateMovie NewMongoMovieRepository currentYear title year s =
                   (Inl (fmt_Errorf ''invalid movie data'' e), after_calls 1 s))) \<and>
         (\<exists>e. fst (CreateMovie NewMongoMovieRepository currentYear title year s) = Inl e) \<and>
         snd (CreateMovie NewMongoMovieRepository currentYear title year s) = after_calls 1 s \<and>
         docs (snd (CreateMovie NewMongoMovieRepository currentYear title year s)) = docs s \<and>
         (faults s = [] \<longrightarrow>
            snd (CreateMovie NewMongoMovieRepository currentYear title year s) = s) \<and>
         MongoMovieRepository_Count
            ((snd (CreateMovie NewMongoMovieRepository currentYear title year s))\<lparr>faults := fs\<rparr>) =
           MongoMovieRepository_Count (s\<lparr>faults := fs\<rparr>) \<and>
         MongoMovieRepository_FindByID mid
            ((snd (CreateMovie NewMongoMovieRepository currentYear title year s))\<lparr>faults := fs\<rparr>) =
           MongoMovieRepository_FindByID mid (s\<lparr>faults := fs\<rparr>) \<and>
         (\<not> calls_ok 1 s \<longrightarrow>
            (\<exists>msg rest. faults s = Some msg # rest \<and>
               CreateMovie NewMongoMovieRepository currentYear title year s =
                 (Inl (fmt_Errorf ''failed to generate movie ID''
                        (fmt_Errorf ''failed to get max movie ID'' (DriverError msg))),
                  after_calls 1 s)))"
proof -
  let ?r = "CreateMovie NewMongoMovieRepository currentYear title year s"
  obtain e where e0: "NewMovie currentYear 0 title year = Inl e"
    using assms NewMovie_Inl_iff [of currentYear 0 title year] by blast
  then have e: "NewMovie currentYear i title year = Inl e" for i
    by (rule NewMovie_Inl_any_id)
  have a: "?r = (Inl (fmt_Errorf ''invalid movie data'' e), after_calls 1 s)" if "calls_ok 1 s"
    using GetNextID_ok [OF that] e
    by (simp add: CreateMovie_def NewMongoMovieRepository_def)
  have b: "(\<exists>e'. fst ?r = Inl e') \<and> snd ?r = after_calls 1 s"
  proof (cases "MongoMovieRepository_GetNextID s")
    case (Pair res s1)
    with snd_GetNextID [of s] have s1: "s1 = after_calls 1 s" by simp
    show ?thesis
    proof (cases res)
      case (Inl err)
      with Pair s1 show ?thesis
        by (simp add: CreateMovie_def NewMongoMovieRepository_def)
    next
      case (Inr nid)
      with Pair s1 e [of nid] show ?thesis
        by (simp add: CreateMovie_def NewMongoMovieRepository_def)
    qed
  qed
  from b have c: "(snd ?r)\<lparr>faults := fs\<rparr> = s\<lparr>faults := fs\<rparr>"
    by (simp add: after_calls_def)
  from b have d: "docs (snd ?r) = docs s" "faults s = [] \<longrightarrow> snd ?r = s"
    by (simp_all add: after_calls_no_faults)
  from a e have f: "calls_ok 1 s \<longrightarrow>
            (\<exists>e. (\<forall>i. NewMovie currentYear i title year = Inl e) \<and>
                 ?r = (Inl (fmt_Errorf ''invalid movie data'' e), after_calls 1 s))"
    by blast
  have g: "\<exists>msg rest. faults s = Some msg # rest \<and>
               ?r = (Inl (fmt_Errorf ''failed to generate movie ID''
                        (fmt_Errorf ''failed to get max movie ID'' (DriverError msg))),
                  after_calls 1 s)"
    if "\<not> calls_ok 1 s"
  proof -
    from not_calls_ok_fault [OF that] obtain msg rest where q: "faults s = Some msg # rest"
      by blast
    from GetNextID_fault [OF q] q show ?thesis
      by (simp add: CreateMovie_def NewMongoMovieRepository_def)
  qed
  show ?thesis
    unfolding c using f b d g by blast
qed

theorem CreateMovie_invalid_witness:
  "\<not> creation_constraints 2026 [] ''2023'' \<and>
   calls_ok 1 \<lparr>docs = [], faults = []\<rparr> \<and>
   CreateMovie NewMongoMovieRepository 2026 [] ''2023'' \<lparr>docs = [], faults = []\<rparr> =
     (Inl (fmt_Errorf ''invalid movie data'' (errors_New ''title cannot be empty'')),
      \<lparr>docs = [], faults = []\<rparr>) \<and>
   \<not> calls_ok 1 \<lparr>docs = [], faults = [Some ''connection lost'', None]\<rparr> \<and>
   CreateMovie NewMongoMovieRepository 2026 [] ''2023''
     \<lparr>docs = [], faults = [Some ''connection lost'', None]\<rparr> =
     (Inl (fmt_Errorf ''failed to generate movie ID''
            (fmt_Errorf ''failed to get max movie ID'' (DriverError ''connection lost''))),
      \<lparr>docs = [], faults = [None]\<rparr>)"
proof -
  let ?s = "\<lparr>docs = [], faults = []\<rparr>"
  let ?t = "\<lparr>docs = [], faults = [Some ''connection lost'', None]\<rparr>"
  have h: "\<not> creation_constraints 2026 [] ''2023''"
    by (simp add: creation_constraints_def)
  have ok: "calls_ok 1 ?s" by (simp add: calls_ok_def)
  have n: "NewMovie 2026 0 [] ''2023'' = Inl (errors_New ''title cannot be empty'')"
    by (simp add: NewMovie_def)
  from CreateMovie_invalid [OF h, of ?s, THEN conjunct1] ok
  obtain e where e: "\<forall>i. NewMovie 2026 i [] ''2023'' = Inl e"
    and r: "CreateMovie NewMongoMovieRepository 2026 [] ''2023'' ?s =
              (Inl (fmt_Errorf ''invalid movie data'' e), after_calls 1 ?s)"
    by blast
  from e n have "e = errors_New ''title cannot be empty''" by simp
  with r have g: "CreateMovie NewMongoMovieRepository 2026 [] ''2023'' ?s =
     (Inl (fmt_Errorf ''invalid movie data'' (errors_New ''title cannot be empty'')), ?s)"
    by (simp add: after_calls_def)
  have nok: "\<not> calls_ok 1 ?t" by (simp add: calls_ok_def)
  from CreateMovie_invalid [OF h, of ?t] nok
  obtain msg rest where q: "faults ?t = Some msg # rest"
    and r': "CreateMovie NewMongoMovieRepository 2026 [] ''2023'' ?t =
               (Inl (fmt_Errorf ''failed to generate movie ID''
                      (fmt_Errorf ''failed to get max movie ID'' (DriverError msg))),
                after_calls 1 ?t)"
    by blast
  from q have "msg = ''connection lost''" by simp
  with r' have g': "CreateMovie NewMongoMovieRepository 2026 [] ''2023'' ?t =
     (Inl (fmt_Errorf ''failed to generate movie ID''
            (fmt_Errorf ''failed to get max movie ID'' (DriverError ''connection lost''))),
      \<lparr>docs = [], faults = [None]\<rparr>)"
    by (simp add: after_calls_def)
  show ?thesis by (intro conjI) (fact h ok g nok g')+
qed

text \<open>
  When the query for the next id fails, the failure of \<^verbatim>\<open>CreateMovie\<close> is that of
  the store, also for a title that is empty.
\<close>

theorem CreateMovie_invalid_storage_failure:
  "\<not> creation_constraints 2026 [] ''2023'' \<and>
   CreateMovie NewMongoMovieRepository 2026 [] ''2023''
     \<lparr>docs = [], faults = [Some ''timeout'']\<rparr> =
     (Inl (fmt_Errorf ''failed to generate movie ID''
            (fmt_Errorf ''failed to get max movie ID'' (DriverError ''timeout''))),
      \<lparr>docs = [], faults = []\<rparr>)"
  by (simp add: creation_constraints_def CreateMovie_def NewMongoMovieRepository_def
      MongoMovieRepository_GetNextID_def Collection_FindOne_desc_def driver_call_def)

end
